theory Spec2Isabelle
  imports
    Complex_Main
    "HOL-Library.Char_ord"
    "HOL-Library.List_Lexorder"
    "HOL-Library.Multiset"
begin

section \<open>JavaScript values\<close>

text \<open>
  The handlers of \<^verbatim>\<open>server.js\<close> read a parsed JSON request body, bind values to SQL
  statements, read rows back as JavaScript objects and answer with JSON. All of these are
  JavaScript values. A number is modelled by the real it denotes (a JSON text never parses
  to NaN; \<open>-0\<close> is \<open>0\<close>), an object by the list of its own properties.
\<close>

datatype jsval =
    JUndefined
  | JNull
  | JBool bool
  | JNum real
  | JStr string
  | JArr "jsval list"
  | JObj "(string \<times> jsval) list"

text \<open>
  Truthiness, the meaning of \<^verbatim>\<open>!x\<close> and of \<^verbatim>\<open>x || y\<close>: \<^verbatim>\<open>undefined\<close>,
  \<^verbatim>\<open>null\<close>, \<^verbatim>\<open>false\<close>, \<^verbatim>\<open>0\<close> and the empty string are falsy, every array and
  every object is truthy.
\<close>

fun truthy :: "jsval \<Rightarrow> bool" where
  "truthy JUndefined = False"
| "truthy JNull = False"
| "truthy (JBool b) = b"
| "truthy (JNum x) = (x \<noteq> 0)"
| "truthy (JStr s) = (s \<noteq> [])"
| "truthy (JArr xs) = True"
| "truthy (JObj kvs) = True"



text \<open>
  Property read \<^verbatim>\<open>v.k\<close> for the keys the handlers use. An object gives the property
  or \<^verbatim>\<open>undefined\<close>; a number, string, boolean or array has none of the keys read here.
  On \<^verbatim>\<open>undefined\<close> and \<^verbatim>\<open>null\<close> a read throws, and the handlers read
  \<^verbatim>\<open>coords.lat\<close> only behind \<^verbatim>\<open>!coords ||\<close>, so that case is never evaluated.
\<close>

fun js_get :: "jsval \<Rightarrow> string \<Rightarrow> jsval" where
  "js_get (JObj kvs) k = (case map_of kvs k of Some v \<Rightarrow> v | None \<Rightarrow> JUndefined)"
| "js_get v k = JUndefined"

text \<open>\<^verbatim>\<open>v || null\<close>\<close>

definition or_null :: "jsval \<Rightarrow> jsval" where
  "or_null v = (if truthy v then v else JNull)"

text \<open>
  The text of a row count inside a template literal, \<^verbatim>\<open>`${n}`\<close>: its decimal
  digits (a count is an integer far below the size where JavaScript switches to exponent
  notation).
\<close>

fun decimal :: "nat \<Rightarrow> string" where
  "decimal n =
     (if n < 10 then [''0123456789'' ! n]
      else decimal (n div 10) @ [''0123456789'' ! (n mod 10)])"

declare decimal.simps [simp del]

section \<open>The friends table\<close>

text \<open>
  \<^verbatim>\<open>CREATE TABLE friends\<close>: an integer primary key with \<^verbatim>\<open>AUTOINCREMENT\<close>, seven
  data columns, and a timestamp that defaults to \<^verbatim>\<open>CURRENT_TIMESTAMP\<close>. A cell holds
  the value that was bound to it, as the driver hands it back to JavaScript: a text in a
  text column, a number in a number column and \<^verbatim>\<open>NULL\<close> come back as they went in;
  what the engine makes of a value of another type than its column's is left out. The
  timestamp is the text \<^verbatim>\<open>YYYY-MM-DD HH:MM:SS\<close>; the engine compares texts byte by
  byte, which is the lexicographic order on \<^typ>\<open>string\<close>.
\<close>

record row =
  rowid :: int
  name :: jsval
  location :: jsval
  "notes" :: jsval
  otherCities :: jsval
  latitude :: jsval
  longitude :: jsval
  displayName :: jsval
  timestamp :: string

text \<open>
  The database: the rows of the table in insertion order, and the counter that
  \<^verbatim>\<open>AUTOINCREMENT\<close> keeps (the largest id ever given out).
\<close>

record db =
  friends :: "row list"
  sequence :: int

definition init_db :: db where
  "init_db = \<lparr>friends = [], sequence = 0\<rparr>"

subsection \<open>The SQL statements\<close>

text \<open>
  \<^verbatim>\<open>ORDER BY timestamp DESC\<close>. SQL leaves the order of rows with equal timestamps
  open; the engine's sorter keeps them in the order of the table, and so does the model:
  the stable ascending sort of the reversed table, reversed.
\<close>

definition order_by_timestamp_desc :: "row list \<Rightarrow> row list" where
  "order_by_timestamp_desc rs = rev (sort_key timestamp (rev rs))"

text \<open>\<^verbatim>\<open>SELECT * FROM friends ORDER BY timestamp DESC\<close>: one object per row.\<close>

definition select_star :: "row \<Rightarrow> jsval" where
  "select_star r = JObj
     [(''id'', JNum (of_int (rowid r))),
      (''name'', name r),
      (''location'', location r),
      (''notes'', notes r),
      (''otherCities'', otherCities r),
      (''latitude'', latitude r),
      (''longitude'', longitude r),
      (''displayName'', displayName r),
      (''timestamp'', JStr (timestamp r))]"

definition select_all_friends :: "db \<Rightarrow> jsval list" where
  "select_all_friends d = map select_star (order_by_timestamp_desc (friends d))"

text \<open>
  \<^verbatim>\<open>SELECT id, name, location, latitude, longitude, displayName, timestamp FROM friends
  ORDER BY timestamp DESC\<close>
\<close>

definition select_public_columns :: "row \<Rightarrow> jsval" where
  "select_public_columns r = JObj
     [(''id'', JNum (of_int (rowid r))),
      (''name'', name r),
      (''location'', location r),
      (''latitude'', latitude r),
      (''longitude'', longitude r),
      (''displayName'', displayName r),
      (''timestamp'', JStr (timestamp r))]"

definition select_public_friends :: "db \<Rightarrow> jsval list" where
  "select_public_friends d = map select_public_columns (order_by_timestamp_desc (friends d))"

text \<open>
  \<^verbatim>\<open>INSERT INTO friends (name, location, notes, otherCities, latitude, longitude,
  displayName) VALUES (?, ?, ?, ?, ?, ?, ?)\<close>. The new id is one more than the largest
  id the table holds or has ever given out; the timestamp is the current time \<open>now\<close>.
  The statement fails (\<open>None\<close>) when a \<^verbatim>\<open>NOT NULL\<close> column would get \<^verbatim>\<open>NULL\<close>.
  The row holds the values as they were bound. The engine converts a value to the affinity
  of its column (a number bound to a text column is kept as its text, a text that reads as
  a number bound to a \<^verbatim>\<open>REAL\<close> column is kept as that number); this conversion is
  not part of the model, so what is read back is stated only for values of the type of
  their column: strings in the text columns, numbers in \<open>latitude\<close> and \<open>longitude\<close>.
\<close>

definition next_id :: "db \<Rightarrow> int" where
  "next_id d = fold max (map rowid (friends d)) (sequence d) + 1"

definition insert_friend ::
  "string \<Rightarrow> jsval \<Rightarrow> jsval \<Rightarrow> jsval \<Rightarrow> jsval \<Rightarrow> jsval \<Rightarrow> jsval \<Rightarrow> jsval \<Rightarrow> db \<Rightarrow> (int \<times> db) option"
where
  "insert_friend now v_name v_location v_notes v_otherCities v_latitude v_longitude
       v_displayName d =
     (if v_name = JNull \<or> v_location = JNull \<or> v_latitude = JNull \<or> v_longitude = JNull
      then None
      else
        let lastID = next_id d;
            r = \<lparr>rowid = lastID, name = v_name, location = v_location, notes = v_notes,
                 otherCities = v_otherCities, latitude = v_latitude,
                 longitude = v_longitude, displayName = v_displayName, timestamp = now\<rparr>
        in Some (lastID, \<lparr>friends = friends d @ [r], sequence = lastID\<rparr>))"

text \<open>
  \<^verbatim>\<open>DELETE FROM friends WHERE id = ?\<close> and \<^verbatim>\<open>DELETE FROM friends\<close>, each with the
  number of rows it removed (\<^verbatim>\<open>this.changes\<close>). The path segment \<^verbatim>\<open>:id\<close> is taken
  as the integer the engine compares with the key; a segment that is no number compares
  equal to no key, like an id that is absent.
\<close>

definition delete_where_id :: "int \<Rightarrow> db \<Rightarrow> nat \<times> db" where
  "delete_where_id i d =
     (length (filter (\<lambda>r. rowid r = i) (friends d)),
      d\<lparr>friends := filter (\<lambda>r. rowid r \<noteq> i) (friends d)\<rparr>)"

definition delete_all :: "db \<Rightarrow> nat \<times> db" where
  "delete_all d = (length (friends d), d\<lparr>friends := []\<rparr>)"

text \<open>
  The aggregate query of the stats route: \<^verbatim>\<open>COUNT(*)\<close>, and the two
  \<^verbatim>\<open>COUNT(CASE WHEN c IS NOT NULL AND c != '' THEN 1 END)\<close>. It yields exactly one row.
\<close>

definition not_null_not_empty :: "jsval \<Rightarrow> bool" where
  "not_null_not_empty v = (v \<noteq> JNull \<and> v \<noteq> JStr [])"

definition select_stats :: "db \<Rightarrow> jsval list" where
  "select_stats d =
     [JObj
       [(''totalFriends'', JNum (of_nat (length (friends d)))),
        (''friendsWithNotes'',
           JNum (of_nat (length (filter (\<lambda>r. not_null_not_empty (notes r)) (friends d))))),
        (''friendsWithRecommendations'',
           JNum (of_nat (length (filter (\<lambda>r. not_null_not_empty (otherCities r)) (friends d)))))]]"

section \<open>The routes\<close>

text \<open>
  A response is the status code and the value given to \<^verbatim>\<open>res.json\<close>. Every handler
  takes \<open>err\<close>, whether the engine reports a failure of its statement (then the statement
  changes nothing), and returns the response with the database after the request.
\<close>

record response =
  status :: nat
  json :: jsval

definition ok :: "jsval \<Rightarrow> response" where
  "ok v = \<lparr>status = 200, json = v\<rparr>"

definition error :: "nat \<Rightarrow> string \<Rightarrow> response" where
  "error code msg = \<lparr>status = code, json = JObj [(''error'', JStr msg)]\<rparr>"

text \<open>\<^verbatim>\<open>GET /api/friends\<close>\<close>

definition friend_of_row :: "jsval \<Rightarrow> jsval" where
  "friend_of_row r = JObj
     [(''id'', js_get r ''id''),
      (''name'', js_get r ''name''),
      (''location'', js_get r ''location''),
      (''notes'', js_get r ''notes''),
      (''otherCities'', js_get r ''otherCities''),
      (''coords'', JObj [(''lat'', js_get r ''latitude''), (''lng'', js_get r ''longitude'')]),
      (''displayName'', js_get r ''displayName''),
      (''timestamp'', js_get r ''timestamp'')]"

definition get_friends :: "bool \<Rightarrow> db \<Rightarrow> response \<times> db" where
  "get_friends err d =
     (if err then (error 500 ''Failed to fetch friends'', d)
      else (ok (JArr (map friend_of_row (select_all_friends d))), d))"

text \<open>\<^verbatim>\<open>GET /api/friends/public\<close>\<close>

definition public_friend_of_row :: "jsval \<Rightarrow> jsval" where
  "public_friend_of_row r = JObj
     [(''id'', js_get r ''id''),
      (''name'', js_get r ''name''),
      (''location'', js_get r ''location''),
      (''coords'', JObj [(''lat'', js_get r ''latitude''), (''lng'', js_get r ''longitude'')]),
      (''displayName'', js_get r ''displayName''),
      (''timestamp'', js_get r ''timestamp'')]"

definition get_friends_public :: "bool \<Rightarrow> db \<Rightarrow> response \<times> db" where
  "get_friends_public err d =
     (if err then (error 500 ''Failed to fetch friends'', d)
      else (ok (JArr (map public_friend_of_row (select_public_friends d))), d))"

text \<open>
  \<^verbatim>\<open>POST /api/friends\<close>. The body is the object that the JSON middleware leaves in
  \<^verbatim>\<open>req.body\<close>, given by its properties.
\<close>

definition missing_required :: "(string \<times> jsval) list \<Rightarrow> bool" where
  "missing_required body =
     (\<not> truthy (js_get (JObj body) ''name'') \<or>
      \<not> truthy (js_get (JObj body) ''location'') \<or>
      \<not> truthy (js_get (JObj body) ''coords'') \<or>
      \<not> truthy (js_get (js_get (JObj body) ''coords'') ''lat'') \<or>
      \<not> truthy (js_get (js_get (JObj body) ''coords'') ''lng''))"

definition post_friends :: "bool \<Rightarrow> string \<Rightarrow> (string \<times> jsval) list \<Rightarrow> db \<Rightarrow> response \<times> db" where
  "post_friends err now body d =
     (if missing_required body
      then (error 400 ''Name, location, and coordinates are required'', d)
      else
        case (if err then None
              else insert_friend now
                     (js_get (JObj body) ''name'')
                     (js_get (JObj body) ''location'')
                     (or_null (js_get (JObj body) ''notes''))
                     (or_null (js_get (JObj body) ''otherCities''))
                     (js_get (js_get (JObj body) ''coords'') ''lat'')
                     (js_get (js_get (JObj body) ''coords'') ''lng'')
                     (or_null (js_get (JObj body) ''displayName''))
                     d) of
          None \<Rightarrow> (error 500 ''Failed to add friend'', d)
        | Some (lastID, d') \<Rightarrow>
            (ok (JObj
               [(''id'', JNum (of_int lastID)),
                (''name'', js_get (JObj body) ''name''),
                (''location'', js_get (JObj body) ''location''),
                (''notes'', js_get (JObj body) ''notes''),
                (''otherCities'', js_get (JObj body) ''otherCities''),
                (''coords'', js_get (JObj body) ''coords''),
                (''displayName'', js_get (JObj body) ''displayName''),
                (''message'', JStr ''Friend added successfully'')]),
             d'))"

text \<open>\<^verbatim>\<open>DELETE /api/friends/:id\<close>\<close>

definition delete_friend :: "bool \<Rightarrow> int \<Rightarrow> db \<Rightarrow> response \<times> db" where
  "delete_friend err friendId d =
     (if err then (error 500 ''Failed to delete friend'', d)
      else
        let (changes, d') = delete_where_id friendId d
        in if changes = 0 then (error 404 ''Friend not found'', d')
           else (ok (JObj [(''message'', JStr ''Friend deleted successfully'')]), d'))"

text \<open>\<^verbatim>\<open>DELETE /api/friends\<close>\<close>

definition clear_friends :: "bool \<Rightarrow> db \<Rightarrow> response \<times> db" where
  "clear_friends err d =
     (if err then (error 500 ''Failed to clear friends'', d)
      else
        let (changes, d') = delete_all d
        in (ok (JObj [(''message'', JStr (''Deleted '' @ decimal changes @ '' friends''))]), d'))"

text \<open>\<^verbatim>\<open>GET /api/stats\<close>: the first (and only) row of the aggregate query.\<close>

definition get_stats :: "bool \<Rightarrow> db \<Rightarrow> response \<times> db" where
  "get_stats err d =
     (if err then (error 500 ''Failed to get stats'', d)
      else (ok (hd (select_stats d)), d))"

text \<open>The requests of the API, and the server's step on one of them.\<close>

datatype request =
    GetFriends
  | GetFriendsPublic
  | PostFriends "(string \<times> jsval) list"
  | DeleteFriend int
  | ClearFriends
  | GetStats

fun handle :: "bool \<Rightarrow> string \<Rightarrow> request \<Rightarrow> db \<Rightarrow> response \<times> db" where
  "handle err now GetFriends d = get_friends err d"
| "handle err now GetFriendsPublic d = get_friends_public err d"
| "handle err now (PostFriends body) d = post_friends err now body d"
| "handle err now (DeleteFriend friendId) d = delete_friend err friendId d"
| "handle err now ClearFriends d = clear_friends err d"
| "handle err now GetStats d = get_stats err d"

section \<open>Notions used to state the properties\<close>

text \<open>\<^verbatim>\<open>Object.keys\<close>: the names of the properties of an object, in order.\<close>

fun js_keys :: "jsval \<Rightarrow> string list" where
  "js_keys (JObj kvs) = map fst kvs"
| "js_keys v = []"

text \<open>A row with its \<open>notes\<close> and \<open>otherCities\<close> blanked: what is left of it when these
  two columns are disregarded.\<close>

definition redact :: "row \<Rightarrow> row" where
  "redact r = r\<lparr>notes := JNull, otherCities := JNull\<rparr>"

text \<open>The record that stands for a row in the privileged list, and in the public list.\<close>

definition privileged_view :: "row \<Rightarrow> jsval" where
  "privileged_view r = JObj
     [(''id'', JNum (of_int (rowid r))),
      (''name'', name r),
      (''location'', location r),
      (''notes'', notes r),
      (''otherCities'', otherCities r),
      (''coords'', JObj [(''lat'', latitude r), (''lng'', longitude r)]),
      (''displayName'', displayName r),
      (''timestamp'', JStr (timestamp r))]"

definition public_view :: "row \<Rightarrow> jsval" where
  "public_view r = JObj
     [(''id'', JNum (of_int (rowid r))),
      (''name'', name r),
      (''location'', location r),
      (''coords'', JObj [(''lat'', latitude r), (''lng'', longitude r)]),
      (''displayName'', displayName r),
      (''timestamp'', JStr (timestamp r))]"

text \<open>The number that a text of decimal digits denotes.\<close>

definition of_decimal :: "string \<Rightarrow> nat" where
  "of_decimal s = foldl (\<lambda>a c. 10 * a + (of_char c - 48)) 0 s"

text \<open>A table of two friends, used to run the operations on.\<close>

definition two_friends :: db where
  "two_friends =
     \<lparr>friends =
        [\<lparr>rowid = 1, name = JStr ''Ana'', location = JStr ''Rome'',
           notes = JStr ''met in Lisbon'', otherCities = JNull,
           latitude = JNum 41.9, longitude = JNum 12.5, displayName = JNull,
           timestamp = ''2024-05-01 10:00:00''\<rparr>,
         \<lparr>rowid = 2, name = JStr ''Ben'', location = JStr ''Oslo'',
           notes = JNull, otherCities = JStr ''Bergen'',
           latitude = JNum 59.9, longitude = JNum 10.7, displayName = JStr ''B'',
           timestamp = ''2024-05-02 09:30:00''\<rparr>],
      sequence = 2\<rparr>"

section \<open>Auxiliary facts\<close>

lemma digit_char: "k < 10 \<Longrightarrow> of_char (''0123456789'' ! k) = (48 + k :: nat)"
proof -
  assume "k < 10"
  then have "k \<in> set [0..<10]" by simp
  then show ?thesis
    by (auto simp: upt_rec)
qed

lemma of_decimal_snoc: "of_decimal (s @ [c]) = 10 * of_decimal s + (of_char c - 48)"
  by (simp add: of_decimal_def)

lemma of_decimal_decimal: "of_decimal (decimal n) = n"
proof (induction n rule: decimal.induct)
  case (1 n)
  show ?case
  proof (cases "n < 10")
    case True
    then show ?thesis
      by (subst decimal.simps) (simp add: of_decimal_def digit_char)
  next
    case False
    then have "of_decimal (decimal (n div 10)) = n div 10" by (rule "1.IH")
    moreover have "decimal n = decimal (n div 10) @ [''0123456789'' ! (n mod 10)]"
      using False by (subst decimal.simps) simp
    ultimately show ?thesis
      by (simp add: of_decimal_snoc digit_char)
  qed
qed

lemma fold_max_ge_init: "(a::int) \<le> fold max xs a"
  by (induction xs arbitrary: a) (auto intro: order_trans [OF max.cobounded2])

lemma fold_max_ge_elem: "x \<in> set xs \<Longrightarrow> (x::int) \<le> fold max xs a"
proof (induction xs arbitrary: a)
  case Nil
  then show ?case by simp
next
  case (Cons y ys)
  show ?case
  proof (cases "x = y")
    case True
    have "max y a \<le> fold max ys (max y a)" by (rule fold_max_ge_init)
    with True show ?thesis by simp
  next
    case False
    with Cons.prems have "x \<in> set ys" by simp
    then show ?thesis by (simp add: Cons.IH)
  qed
qed

lemma next_id_fresh: "r \<in> set (friends d) \<Longrightarrow> rowid r < next_id d"
  using fold_max_ge_elem [of "rowid r" "map rowid (friends d)" "sequence d"]
  by (simp add: next_id_def)

lemma insort_key_map_same:
  "(\<And>x. f (g x) = f x) \<Longrightarrow> insort_key f (g x) (map g xs) = map g (insort_key f x xs)"
  by (induction xs) simp_all

lemma sort_key_map_same:
  "(\<And>x. f (g x) = f x) \<Longrightarrow> sort_key f (map g xs) = map g (sort_key f xs)"
  by (induction xs) (simp_all add: insort_key_map_same)

lemma order_by_redact:
  "order_by_timestamp_desc (map redact rs) = map redact (order_by_timestamp_desc rs)"
  by (simp add: order_by_timestamp_desc_def sort_key_map_same redact_def rev_map)

lemma public_columns_redact: "select_public_columns (redact r) = select_public_columns r"
  by (simp add: select_public_columns_def redact_def)

lemma select_public_redact:
  "map redact (friends d1) = map redact (friends d2) \<Longrightarrow>
   select_public_friends d1 = select_public_friends d2"
proof -
  assume eq: "map redact (friends d1) = map redact (friends d2)"
  have "select_public_friends d = map select_public_columns (order_by_timestamp_desc (map redact (friends d)))" for d
    by (simp add: select_public_friends_def order_by_redact public_columns_redact o_def)
  with eq show ?thesis by simp
qed

lemma mset_order_by: "mset (order_by_timestamp_desc rs) = mset rs"
  by (simp add: order_by_timestamp_desc_def)

lemma sorted_order_by: "sorted (rev (map timestamp (order_by_timestamp_desc rs)))"
  by (simp add: order_by_timestamp_desc_def rev_map)

lemma delete_absent:
  "friendId \<notin> rowid ` set (friends d) \<Longrightarrow> delete_where_id friendId d = (0, d)"
proof -
  assume a: "friendId \<notin> rowid ` set (friends d)"
  then have "filter (\<lambda>r. rowid r = friendId) (friends d) = []"
    by (auto simp: filter_empty_conv)
  moreover from a have "filter (\<lambda>r. rowid r \<noteq> friendId) (friends d) = friends d"
    by (auto simp: filter_id_conv)
  ultimately show ?thesis by (simp add: delete_where_id_def)
qed

lemma delete_present:
  "friendId \<in> rowid ` set (friends d) \<Longrightarrow> fst (delete_where_id friendId d) \<noteq> 0"
  by (auto simp: delete_where_id_def filter_empty_conv)

lemma length_filter_distinct_key:
  "distinct (map f xs) \<Longrightarrow> x \<in> set xs \<Longrightarrow> length (filter (\<lambda>y. f y \<noteq> f x) xs) + 1 = length xs"
proof (induction xs)
  case Nil
  then show ?case by simp
next
  case (Cons y ys)
  show ?case
  proof (cases "y = x")
    case True
    with Cons.prems have "\<forall>z\<in>set ys. f z \<noteq> f x" by (auto simp: image_iff)
    then have "filter (\<lambda>z. f z \<noteq> f x) ys = ys" by (simp add: filter_id_conv)
    with True show ?thesis by simp
  next
    case False
    with Cons.prems have "x \<in> set ys" and "f y \<noteq> f x" and "distinct (map f ys)" by auto
    with Cons.IH show ?thesis by simp
  qed
qed

lemma truthy_not_null: "truthy v \<Longrightarrow> v \<noteq> JNull"
  by auto

lemma post_friends_success:
  assumes "\<not> missing_required body" and "\<not> err"
  shows "post_friends err now body d =
    (ok (JObj
       [(''id'', JNum (of_int (next_id d))),
        (''name'', js_get (JObj body) ''name''),
        (''location'', js_get (JObj body) ''location''),
        (''notes'', js_get (JObj body) ''notes''),
        (''otherCities'', js_get (JObj body) ''otherCities''),
        (''coords'', js_get (JObj body) ''coords''),
        (''displayName'', js_get (JObj body) ''displayName''),
        (''message'', JStr ''Friend added successfully'')]),
     \<lparr>friends = friends d @
        [\<lparr>rowid = next_id d,
          name = js_get (JObj body) ''name'',
          location = js_get (JObj body) ''location'',
          notes = or_null (js_get (JObj body) ''notes''),
          otherCities = or_null (js_get (JObj body) ''otherCities''),
          latitude = js_get (js_get (JObj body) ''coords'') ''lat'',
          longitude = js_get (js_get (JObj body) ''coords'') ''lng'',
          displayName = or_null (js_get (JObj body) ''displayName''),
          timestamp = now\<rparr>],
      sequence = next_id d\<rparr>)"
proof -
  from assms(1) have "js_get (JObj body) ''name'' \<noteq> JNull"
    and "js_get (JObj body) ''location'' \<noteq> JNull"
    and "js_get (js_get (JObj body) ''coords'') ''lat'' \<noteq> JNull"
    and "js_get (js_get (JObj body) ''coords'') ''lng'' \<noteq> JNull"
    unfolding missing_required_def by (blast dest: truthy_not_null)+
  with assms show ?thesis
    by (simp add: post_friends_def insert_friend_def Let_def)
qed

lemma post_friends_failure:
  "missing_required body \<or> err \<Longrightarrow> snd (post_friends err now body d) = d"
  by (auto simp: post_friends_def)

lemma js_get_select_star:
  "js_get (select_star r) ''id'' = JNum (of_int (rowid r))"
  "js_get (select_star r) ''name'' = name r"
  "js_get (select_star r) ''location'' = location r"
  "js_get (select_star r) ''notes'' = notes r"
  "js_get (select_star r) ''otherCities'' = otherCities r"
  "js_get (select_star r) ''latitude'' = latitude r"
  "js_get (select_star r) ''longitude'' = longitude r"
  "js_get (select_star r) ''displayName'' = displayName r"
  "js_get (select_star r) ''timestamp'' = JStr (timestamp r)"
  by (simp_all add: select_star_def)

lemma js_get_select_public_columns:
  "js_get (select_public_columns r) ''id'' = JNum (of_int (rowid r))"
  "js_get (select_public_columns r) ''name'' = name r"
  "js_get (select_public_columns r) ''location'' = location r"
  "js_get (select_public_columns r) ''latitude'' = latitude r"
  "js_get (select_public_columns r) ''longitude'' = longitude r"
  "js_get (select_public_columns r) ''displayName'' = displayName r"
  "js_get (select_public_columns r) ''timestamp'' = JStr (timestamp r)"
  by (simp_all add: select_public_columns_def)

lemma friend_of_select_star: "friend_of_row (select_star r) = privileged_view r"
  by (simp add: friend_of_row_def privileged_view_def js_get_select_star)

lemma public_friend_of_select:
  "public_friend_of_row (select_public_columns r) = public_view r"
  by (simp add: public_friend_of_row_def public_view_def js_get_select_public_columns)

lemma get_friends_ok:
  "\<not> err \<Longrightarrow> get_friends err d =
     (ok (JArr (map (\<lambda>r. friend_of_row (select_star r)) (order_by_timestamp_desc (friends d)))), d)"
  by (simp add: get_friends_def select_all_friends_def o_def)

lemma get_friends_public_ok:
  "\<not> err \<Longrightarrow> get_friends_public err d =
     (ok (JArr (map (\<lambda>r. public_friend_of_row (select_public_columns r))
        (order_by_timestamp_desc (friends d)))), d)"
  by (simp add: get_friends_public_def select_public_friends_def o_def)

lemma js_keys_public:
  "js_keys (public_friend_of_row x) =
     [''id'', ''name'', ''location'', ''coords'', ''displayName'', ''timestamp'']"
  "js_keys (js_get (public_friend_of_row x) ''coords'') = [''lat'', ''lng'']"
  "js_get (public_friend_of_row x) ''notes'' = JUndefined"
  "js_get (public_friend_of_row x) ''otherCities'' = JUndefined"
  by (simp_all add: public_friend_of_row_def)

lemma get_friends_public_redact:
  "map redact (friends d) = map redact (friends d') \<Longrightarrow>
   fst (get_friends_public err d) = fst (get_friends_public err d')"
  using select_public_redact [of d d'] by (simp add: get_friends_public_def)

lemma missing_required_cong:
  assumes "js_get (JObj body) ''name'' = js_get (JObj body') ''name''"
    and "js_get (JObj body) ''location'' = js_get (JObj body') ''location''"
    and "js_get (JObj body) ''coords'' = js_get (JObj body') ''coords''"
  shows "missing_required body = missing_required body'"
  by (simp only: missing_required_def assms)


lemma post_friends_redact:
  assumes "js_get (JObj body) ''name'' = js_get (JObj body') ''name''"
    and "js_get (JObj body) ''location'' = js_get (JObj body') ''location''"
    and "js_get (JObj body) ''coords'' = js_get (JObj body') ''coords''"
    and "js_get (JObj body) ''displayName'' = js_get (JObj body') ''displayName''"
  shows "map redact (friends (snd (post_friends e now body d))) =
         map redact (friends (snd (post_friends e now body' d)))"
proof (cases "missing_required body \<or> e")
  case True
  with missing_required_cong [OF assms(1-3)] have "missing_required body' \<or> e" by simp
  with True show ?thesis by (simp add: post_friends_failure)
next
  case False
  with missing_required_cong [OF assms(1-3)]
  have v: "\<not> missing_required body" "\<not> missing_required body'" "\<not> e" by simp_all
  show ?thesis
    unfolding post_friends_success [OF v(1) v(3)] post_friends_success [OF v(2) v(3)] assms
    by (simp add: redact_def)
qed

lemma post_friends_status_200:
  "status (fst (post_friends err now body d)) = 200 \<Longrightarrow> \<not> missing_required body \<and> \<not> err"
  by (cases "missing_required body"; cases err) (simp_all add: post_friends_def error_def)

lemma post_friends_created:
  assumes "status (fst (post_friends err now body d)) = 200"
  shows "\<exists>r. snd (post_friends err now body d) =
            \<lparr>friends = friends d @ [r], sequence = next_id d\<rparr>
     \<and> rowid r = next_id d
     \<and> name r = js_get (JObj body) ''name''
     \<and> location r = js_get (JObj body) ''location''
     \<and> notes r = or_null (js_get (JObj body) ''notes'')
     \<and> otherCities r = or_null (js_get (JObj body) ''otherCities'')
     \<and> latitude r = js_get (js_get (JObj body) ''coords'') ''lat''
     \<and> longitude r = js_get (js_get (JObj body) ''coords'') ''lng''
     \<and> displayName r = or_null (js_get (JObj body) ''displayName'')
     \<and> timestamp r = now
     \<and> fst (post_friends err now body d) = ok (JObj
         [(''id'', JNum (of_int (next_id d))),
          (''name'', js_get (JObj body) ''name''),
          (''location'', js_get (JObj body) ''location''),
          (''notes'', js_get (JObj body) ''notes''),
          (''otherCities'', js_get (JObj body) ''otherCities''),
          (''coords'', js_get (JObj body) ''coords''),
          (''displayName'', js_get (JObj body) ''displayName''),
          (''message'', JStr ''Friend added successfully'')])"
proof -
  from assms have v: "\<not> missing_required body" "\<not> err"
    using post_friends_status_200 by blast+
  show ?thesis
    unfolding post_friends_success [OF v] by simp
qed

lemma listed_row:
  assumes "\<not> err" and "r \<in> set (friends d)"
  shows "\<exists>xs. fst (get_friends err d) = ok (JArr xs) \<and> privileged_view r \<in> set xs"
proof -
  from assms(1) have "fst (get_friends err d) =
      ok (JArr (map privileged_view (order_by_timestamp_desc (friends d))))"
    by (simp add: get_friends_ok friend_of_select_star)
  moreover from assms(2) have "privileged_view r \<in>
      set (map privileged_view (order_by_timestamp_desc (friends d)))"
    by (simp add: order_by_timestamp_desc_def)
  ultimately show ?thesis by blast
qed

lemma js_get_privileged_view:
  "js_get (privileged_view r) ''id'' = JNum (of_int (rowid r))"
  "js_get (privileged_view r) ''name'' = name r"
  "js_get (privileged_view r) ''location'' = location r"
  "js_get (privileged_view r) ''notes'' = notes r"
  "js_get (privileged_view r) ''otherCities'' = otherCities r"
  "js_get (js_get (privileged_view r) ''coords'') ''lat'' = latitude r"
  "js_get (js_get (privileged_view r) ''coords'') ''lng'' = longitude r"
  "js_get (privileged_view r) ''displayName'' = displayName r"
  "js_get (privileged_view r) ''timestamp'' = JStr (timestamp r)"
  by (simp_all add: privileged_view_def)

lemma next_id_not_in_table: "next_id d \<notin> rowid ` set (friends d)"
  using next_id_fresh [of _ d] by fastforce

lemma get_stats_ok:
  "\<not> err \<Longrightarrow> get_stats err d =
     (ok (JObj
       [(''totalFriends'', JNum (of_nat (length (friends d)))),
        (''friendsWithNotes'',
           JNum (of_nat (length (filter (\<lambda>r. notes r \<noteq> JNull \<and> notes r \<noteq> JStr []) (friends d))))),
        (''friendsWithRecommendations'',
           JNum (of_nat (length (filter (\<lambda>r. otherCities r \<noteq> JNull \<and> otherCities r \<noteq> JStr [])
              (friends d)))))]), d)"
  by (simp add: get_stats_def select_stats_def not_null_not_empty_def)

lemma or_null_counted: "(or_null v \<noteq> JNull \<and> or_null v \<noteq> JStr []) = truthy v"
  by (cases v) (auto simp: or_null_def)

lemma two_creates:
  assumes "friends d = []"
    and "status (fst (post_friends e1 t1 b1 d)) = 200"
    and "status (fst (post_friends e2 t2 b2 (snd (post_friends e1 t1 b1 d)))) = 200"
  shows "\<exists>r1 r2. friends (snd (post_friends e2 t2 b2 (snd (post_friends e1 t1 b1 d)))) = [r1, r2]
     \<and> notes r1 = or_null (js_get (JObj b1) ''notes'')
     \<and> notes r2 = or_null (js_get (JObj b2) ''notes'')"
proof -
  from post_friends_created [OF assms(2)] obtain r1 where
    "snd (post_friends e1 t1 b1 d) = \<lparr>friends = friends d @ [r1], sequence = next_id d\<rparr>"
    and "notes r1 = or_null (js_get (JObj b1) ''notes'')"
    by blast
  moreover from post_friends_created [OF assms(3)] obtain r2 where
    "snd (post_friends e2 t2 b2 (snd (post_friends e1 t1 b1 d))) =
       \<lparr>friends = friends (snd (post_friends e1 t1 b1 d)) @ [r2],
        sequence = next_id (snd (post_friends e1 t1 b1 d))\<rparr>"
    and "notes r2 = or_null (js_get (JObj b2) ''notes'')"
    by blast
  ultimately show ?thesis using assms(1) by simp
qed

lemma read_only:
  "snd (get_friends err d) = d" "snd (get_friends_public err d) = d" "snd (get_stats err d) = d"
  by (simp_all add: get_friends_def get_friends_public_def get_stats_def)

lemma post_friends_rows:
  "snd (post_friends err now body d) = d \<or>
   (\<exists>r. rowid r = next_id d \<and> friends (snd (post_friends err now body d)) = friends d @ [r])"
proof (cases "missing_required body \<or> err")
  case True
  then show ?thesis by (simp add: post_friends_failure)
next
  case False
  then show ?thesis by (simp add: post_friends_success)
qed

lemma delete_friend_rows:
  "snd (delete_friend err friendId d) = d \<or>
   friends (snd (delete_friend err friendId d)) = filter (\<lambda>r. rowid r \<noteq> friendId) (friends d)"
  by (simp add: delete_friend_def delete_where_id_def)

lemma clear_friends_rows:
  "snd (clear_friends err d) = d \<or> friends (snd (clear_friends err d)) = []"
  by (simp add: clear_friends_def delete_all_def)

section \<open>Validation of a create request\<close>

lemma missing_required_unchanged:
  "missing_required body \<Longrightarrow> post_friends err now body d =
     (error 400 ''Name, location, and coordinates are required'', d)"
  by (simp add: post_friends_def)

lemma post_friends_status_valid:
  "\<not> missing_required body \<Longrightarrow> status (fst (post_friends err now body d)) \<noteq> 400"
  by (simp add: post_friends_def ok_def error_def split: option.splits prod.splits)

text \<open>
  C1. A create request is answered with the 400 validation error, and leaves the table as
  it was, exactly when one of \<open>name\<close>, \<open>location\<close>, \<open>coords\<close>, \<open>coords.lat\<close>,
  \<open>coords.lng\<close> is falsy. In particular a latitude or a longitude of \<open>0\<close> is rejected.
\<close>

theorem create_validation:
  "((fst (post_friends err now body d) =
        error 400 ''Name, location, and coordinates are required''
      \<and> snd (post_friends err now body d) = d)
    \<longleftrightarrow>
     (\<not> truthy (js_get (JObj body) ''name'') \<or>
      \<not> truthy (js_get (JObj body) ''location'') \<or>
      \<not> truthy (js_get (JObj body) ''coords'') \<or>
      \<not> truthy (js_get (js_get (JObj body) ''coords'') ''lat'') \<or>
      \<not> truthy (js_get (js_get (JObj body) ''coords'') ''lng'')))
   \<and>
   (js_get (js_get (JObj body) ''coords'') ''lat'' = JNum 0 \<or>
    js_get (js_get (JObj body) ''coords'') ''lng'' = JNum 0
    \<longrightarrow> post_friends err now body d =
          (error 400 ''Name, location, and coordinates are required'', d))"
proof (cases "missing_required body")
  case True
  then show ?thesis
    using missing_required_unchanged [of body err now d] by (simp add: missing_required_def)
next
  case False
  then have "status (fst (post_friends err now body d)) \<noteq> 400"
    by (rule post_friends_status_valid)
  then have "fst (post_friends err now body d) \<noteq>
      error 400 ''Name, location, and coordinates are required''"
    by (auto simp: error_def)
  with False show ?thesis by (auto simp add: missing_required_def)
qed

theorem create_validation_witness:
  "post_friends False ''2024-05-01 10:00:00''
     [(''name'', JStr ''Ana''), (''location'', JStr ''Accra''),
      (''coords'', JObj [(''lat'', JNum 5.6), (''lng'', JNum 0)])] init_db =
   (error 400 ''Name, location, and coordinates are required'', init_db)"
  using create_validation [of False "''2024-05-01 10:00:00''"
     "[(''name'', JStr ''Ana''), (''location'', JStr ''Accra''),
      (''coords'', JObj [(''lat'', JNum 5.6), (''lng'', JNum 0)])]" init_db]
  by simp

section \<open>Deleting\<close>

text \<open>
  C4. When the statement succeeds, deleting an id that is in the table answers with the
  success message and removes the rows with that id and no other (one row, ids being
  distinct); deleting an id that is not in the table answers 404 "Friend not found" and
  leaves the database as it was.
\<close>

theorem delete_friend_result:
  "\<not> err \<Longrightarrow>
   (friendId \<in> rowid ` set (friends d) \<longrightarrow>
      fst (delete_friend err friendId d) = ok (JObj [(''message'', JStr ''Friend deleted successfully'')])
      \<and> friends (snd (delete_friend err friendId d)) = filter (\<lambda>r. rowid r \<noteq> friendId) (friends d)
      \<and> (distinct (map rowid (friends d)) \<longrightarrow>
            length (friends (snd (delete_friend err friendId d))) + 1 = length (friends d)))
   \<and>
   (friendId \<notin> rowid ` set (friends d) \<longrightarrow>
      delete_friend err friendId d = (error 404 ''Friend not found'', d))"
proof -
  assume ne: "\<not> err"
  have absent: "delete_friend err friendId d = (error 404 ''Friend not found'', d)"
    if "friendId \<notin> rowid ` set (friends d)"
    using ne delete_absent [OF that] by (simp add: delete_friend_def)
  have present: "delete_friend err friendId d =
      (ok (JObj [(''message'', JStr ''Friend deleted successfully'')]),
       d\<lparr>friends := filter (\<lambda>r. rowid r \<noteq> friendId) (friends d)\<rparr>)"
    if "friendId \<in> rowid ` set (friends d)"
    using ne delete_present [OF that] by (simp add: delete_friend_def delete_where_id_def)
  have len: "length (filter (\<lambda>r. rowid r \<noteq> friendId) (friends d)) + 1 = length (friends d)"
    if "friendId \<in> rowid ` set (friends d)" and "distinct (map rowid (friends d))"
  proof -
    from that(1) obtain x where "x \<in> set (friends d)" and "rowid x = friendId" by auto
    with that(2) length_filter_distinct_key [of rowid "friends d" x] show ?thesis by simp
  qed
  from absent present len show ?thesis by simp
qed

theorem delete_friend_result_witness:
  "fst (delete_friend False 1 two_friends) =
     ok (JObj [(''message'', JStr ''Friend deleted successfully'')])
   \<and> friends (snd (delete_friend False 1 two_friends)) = [friends two_friends ! 1]
   \<and> length (friends (snd (delete_friend False 1 two_friends))) + 1 = length (friends two_friends)
   \<and> delete_friend False 7 two_friends = (error 404 ''Friend not found'', two_friends)"
  using delete_friend_result [of False 1 two_friends]
    delete_friend_result [of False 7 two_friends]
  by (simp add: two_friends_def)

text \<open>
  C5. When the statement succeeds, clearing the table leaves it empty and answers with the
  message "Deleted N friends", where N is the decimal text of the number of rows that the
  table held before.
\<close>

theorem clear_friends_count:
  "\<not> err \<Longrightarrow>
   clear_friends err d =
     (ok (JObj [(''message'', JStr (''Deleted '' @ decimal (length (friends d)) @ '' friends''))]),
      d\<lparr>friends := []\<rparr>)
   \<and> of_decimal (decimal (length (friends d))) = length (friends d)"
  by (simp add: clear_friends_def delete_all_def of_decimal_decimal)

theorem clear_friends_count_witness:
  "clear_friends False two_friends =
     (ok (JObj [(''message'', JStr ''Deleted 2 friends'')]), \<lparr>friends = [], sequence = 2\<rparr>)"
proof -
  have "\<not> False" by simp
  from clear_friends_count [OF this, of two_friends] show ?thesis
    by (simp add: two_friends_def decimal.simps)
qed

text \<open>
  C10. Clearing the table never answers 404: on an empty table it succeeds with the message
  "Deleted 0 friends" (status 200), whereas deleting one id that matches no row answers
  404 "Friend not found".
\<close>

theorem clear_friends_never_not_found:
  "status (fst (clear_friends err d)) \<noteq> 404
   \<and> (\<not> err \<and> friends d = [] \<longrightarrow>
        fst (clear_friends err d) = ok (JObj [(''message'', JStr ''Deleted 0 friends'')]))
   \<and> (\<not> err \<and> friendId \<notin> rowid ` set (friends d) \<longrightarrow>
        fst (delete_friend err friendId d) = error 404 ''Friend not found'')"
proof -
  have "filter (\<lambda>r. rowid r = friendId) (friends d) = []"
    if "friendId \<notin> rowid ` set (friends d)"
    using that by (auto simp: filter_empty_conv)
  then show ?thesis
    by (auto simp: clear_friends_def delete_all_def delete_friend_def delete_where_id_def
        ok_def error_def decimal.simps)
qed

theorem clear_friends_never_not_found_witness:
  "fst (clear_friends False init_db) = ok (JObj [(''message'', JStr ''Deleted 0 friends'')])
   \<and> status (fst (clear_friends False init_db)) = 200
   \<and> fst (delete_friend False 3 init_db) = error 404 ''Friend not found''"
  using clear_friends_never_not_found [of False init_db 3]
  by (simp add: init_db_def ok_def)

section \<open>Listing\<close>

text \<open>
  C7. When the query succeeds, both lists answer with one record for every stored row (the
  rows of the answer are a permutation of the table, nothing is cut off), in the order of
  descending timestamp; the privileged list carries the \<open>notes\<close> of each row. Neither list
  changes the database.
\<close>

theorem lists_complete_ordered:
  "\<not> err \<Longrightarrow>
   \<exists>rs. mset rs = mset (friends d) \<and> length rs = length (friends d)
     \<and> sorted (rev (map timestamp rs))
     \<and> get_friends err d = (ok (JArr (map privileged_view rs)), d)
     \<and> get_friends_public err d = (ok (JArr (map public_view rs)), d)
     \<and> (\<forall>r\<in>set rs. js_get (privileged_view r) ''notes'' = notes r)"
proof -
  assume ne: "\<not> err"
  let ?rs = "order_by_timestamp_desc (friends d)"
  have "mset ?rs = mset (friends d)" by (rule mset_order_by)
  moreover from this have "length ?rs = length (friends d)" by (rule mset_eq_length)
  moreover have "sorted (rev (map timestamp ?rs))" by (rule sorted_order_by)
  moreover from ne have "get_friends err d = (ok (JArr (map privileged_view ?rs)), d)"
    by (simp add: get_friends_ok friend_of_select_star)
  moreover from ne have "get_friends_public err d = (ok (JArr (map public_view ?rs)), d)"
    by (simp add: get_friends_public_ok public_friend_of_select)
  moreover have "\<forall>r\<in>set ?rs. js_get (privileged_view r) ''notes'' = notes r"
    by (simp add: privileged_view_def)
  ultimately show ?thesis by blast
qed

theorem lists_complete_ordered_witness:
  "\<exists>rs. get_friends False two_friends = (ok (JArr (map privileged_view rs)), two_friends) \<and>
     get_friends_public False two_friends = (ok (JArr (map public_view rs)), two_friends) \<and>
     length rs = 2 \<and> sorted (rev (map timestamp rs))"
proof -
  have "\<not> False" by simp
  from lists_complete_ordered [OF this, of two_friends]
  obtain rs where "length rs = length (friends two_friends)"
    and "sorted (rev (map timestamp rs))"
    and "get_friends False two_friends = (ok (JArr (map privileged_view rs)), two_friends)"
    and "get_friends_public False two_friends = (ok (JArr (map public_view rs)), two_friends)"
    by blast
  moreover have "length (friends two_friends) = 2"
    by (simp add: two_friends_def)
  ultimately show ?thesis by auto
qed

text \<open>
  C2. Every record of the public list has exactly the properties \<open>id\<close>, \<open>name\<close>, \<open>location\<close>,
  \<open>coords\<close> (with \<open>lat\<close> and \<open>lng\<close>), \<open>displayName\<close> and \<open>timestamp\<close>. Two databases whose
  rows differ only in \<open>notes\<close> and \<open>otherCities\<close> get the same public answer; so do the
  databases after two create requests that differ only in \<open>notes\<close> and \<open>otherCities\<close>.
\<close>

theorem public_list_excludes_notes:
  "(\<not> err \<longrightarrow>
      (\<exists>ys. get_friends_public err d = (ok (JArr ys), d) \<and> length ys = length (friends d) \<and>
         (\<forall>y\<in>set ys.
            js_keys y = [''id'', ''name'', ''location'', ''coords'', ''displayName'', ''timestamp'']
            \<and> js_keys (js_get y ''coords'') = [''lat'', ''lng'']
            \<and> js_get y ''notes'' = JUndefined
            \<and> js_get y ''otherCities'' = JUndefined)))
   \<and> (map redact (friends d) = map redact (friends d') \<longrightarrow>
        fst (get_friends_public err d) = fst (get_friends_public err d'))
   \<and> (js_get (JObj body) ''name'' = js_get (JObj body') ''name'' \<and>
       js_get (JObj body) ''location'' = js_get (JObj body') ''location'' \<and>
       js_get (JObj body) ''coords'' = js_get (JObj body') ''coords'' \<and>
       js_get (JObj body) ''displayName'' = js_get (JObj body') ''displayName'' \<longrightarrow>
        fst (get_friends_public err (snd (post_friends e now body d))) =
        fst (get_friends_public err (snd (post_friends e now body' d))))"
proof (intro conjI impI)
  assume "\<not> err"
  then have "get_friends_public err d =
      (ok (JArr (map public_friend_of_row (select_public_friends d))), d)"
    by (simp add: get_friends_public_def)
  moreover have "length (map public_friend_of_row (select_public_friends d)) = length (friends d)"
    by (simp add: select_public_friends_def order_by_timestamp_desc_def)
  moreover have "\<forall>y\<in>set (map public_friend_of_row (select_public_friends d)).
      js_keys y = [''id'', ''name'', ''location'', ''coords'', ''displayName'', ''timestamp'']
      \<and> js_keys (js_get y ''coords'') = [''lat'', ''lng'']
      \<and> js_get y ''notes'' = JUndefined
      \<and> js_get y ''otherCities'' = JUndefined"
    using js_keys_public by auto
  ultimately show "\<exists>ys. get_friends_public err d = (ok (JArr ys), d) \<and>
      length ys = length (friends d) \<and>
      (\<forall>y\<in>set ys.
         js_keys y = [''id'', ''name'', ''location'', ''coords'', ''displayName'', ''timestamp'']
         \<and> js_keys (js_get y ''coords'') = [''lat'', ''lng'']
         \<and> js_get y ''notes'' = JUndefined
         \<and> js_get y ''otherCities'' = JUndefined)"
    by blast
next
  assume "map redact (friends d) = map redact (friends d')"
  then show "fst (get_friends_public err d) = fst (get_friends_public err d')"
    by (rule get_friends_public_redact)
next
  assume "js_get (JObj body) ''name'' = js_get (JObj body') ''name'' \<and>
       js_get (JObj body) ''location'' = js_get (JObj body') ''location'' \<and>
       js_get (JObj body) ''coords'' = js_get (JObj body') ''coords'' \<and>
       js_get (JObj body) ''displayName'' = js_get (JObj body') ''displayName''"
  then have "map redact (friends (snd (post_friends e now body d))) =
         map redact (friends (snd (post_friends e now body' d)))"
    by (intro post_friends_redact) simp_all
  then show "fst (get_friends_public err (snd (post_friends e now body d))) =
        fst (get_friends_public err (snd (post_friends e now body' d)))"
    by (rule get_friends_public_redact)
qed

theorem public_list_excludes_notes_witness:
  "fst (get_friends_public False two_friends) =
     fst (get_friends_public False (two_friends\<lparr>friends := map redact (friends two_friends)\<rparr>))
   \<and> fst (get_friends_public False (snd (post_friends False ''2024-05-03 08:00:00''
          [(''name'', JStr ''Cleo''), (''location'', JStr ''Paris''),
           (''notes'', JStr ''owes me a coffee''), (''otherCities'', JStr ''Lyon''),
           (''coords'', JObj [(''lat'', JNum 48.9), (''lng'', JNum 2.4)])] two_friends))) =
     fst (get_friends_public False (snd (post_friends False ''2024-05-03 08:00:00''
          [(''name'', JStr ''Cleo''), (''location'', JStr ''Paris''),
           (''coords'', JObj [(''lat'', JNum 48.9), (''lng'', JNum 2.4)])] two_friends)))
   \<and> (\<exists>ys. get_friends_public False two_friends = (ok (JArr ys), two_friends) \<and>
          length ys = length (friends two_friends) \<and>
          (\<forall>y\<in>set ys. js_get y ''notes'' = JUndefined \<and> js_get y ''otherCities'' = JUndefined))"
proof -
  note w = public_list_excludes_notes [of False two_friends
      "two_friends\<lparr>friends := map redact (friends two_friends)\<rparr>"
      "[(''name'', JStr ''Cleo''), (''location'', JStr ''Paris''),
        (''notes'', JStr ''owes me a coffee''), (''otherCities'', JStr ''Lyon''),
        (''coords'', JObj [(''lat'', JNum 48.9), (''lng'', JNum 2.4)])]"
      "[(''name'', JStr ''Cleo''), (''location'', JStr ''Paris''),
        (''coords'', JObj [(''lat'', JNum 48.9), (''lng'', JNum 2.4)])]"
      False "''2024-05-03 08:00:00''"]
  have "map redact (friends two_friends) =
      map redact (friends (two_friends\<lparr>friends := map redact (friends two_friends)\<rparr>))"
    by (simp add: redact_def)
  with w show ?thesis by simp blast
qed

section \<open>Creating\<close>




text \<open>
  C9. On a successful create (status 200) one row is appended; an optional field that is
  falsy in the request is \<^verbatim>\<open>NULL\<close> in that row, while the answer carries the request's
  own value of \<open>notes\<close>, \<open>otherCities\<close> and \<open>displayName\<close>. The privileged list that
  follows shows the row's values, so for a field sent as the empty string the list
  (\<^verbatim>\<open>null\<close>) and the answer to the create request (the empty string) differ.
\<close>

theorem falsy_optional_stored_as_null:
  assumes "status (fst (post_friends err now body d)) = 200" and "\<not> err'"
  shows "\<exists>r. friends (snd (post_friends err now body d)) = friends d @ [r]
    \<and> (\<not> truthy (js_get (JObj body) ''notes'') \<longrightarrow> notes r = JNull)
    \<and> (\<not> truthy (js_get (JObj body) ''otherCities'') \<longrightarrow> otherCities r = JNull)
    \<and> (\<not> truthy (js_get (JObj body) ''displayName'') \<longrightarrow> displayName r = JNull)
    \<and> js_get (json (fst (post_friends err now body d))) ''notes'' = js_get (JObj body) ''notes''
    \<and> js_get (json (fst (post_friends err now body d))) ''otherCities'' =
        js_get (JObj body) ''otherCities''
    \<and> js_get (json (fst (post_friends err now body d))) ''displayName'' =
        js_get (JObj body) ''displayName''
    \<and> (\<exists>xs. fst (get_friends err' (snd (post_friends err now body d))) = ok (JArr xs)
         \<and> (\<exists>x\<in>set xs.
               js_get x ''id'' = js_get (json (fst (post_friends err now body d))) ''id''
             \<and> js_get x ''notes'' = notes r
             \<and> js_get x ''otherCities'' = otherCities r
             \<and> js_get x ''displayName'' = displayName r
             \<and> (js_get (JObj body) ''notes'' = JStr [] \<longrightarrow>
                  js_get x ''notes'' \<noteq>
                  js_get (json (fst (post_friends err now body d))) ''notes'')
             \<and> (js_get (JObj body) ''otherCities'' = JStr [] \<longrightarrow>
                  js_get x ''otherCities'' \<noteq>
                  js_get (json (fst (post_friends err now body d))) ''otherCities'')
             \<and> (js_get (JObj body) ''displayName'' = JStr [] \<longrightarrow>
                  js_get x ''displayName'' \<noteq>
                  js_get (json (fst (post_friends err now body d))) ''displayName'')))"
proof -
  from post_friends_created [OF assms(1)] obtain r where
    d': "snd (post_friends err now body d) = \<lparr>friends = friends d @ [r], sequence = next_id d\<rparr>"
    and r: "rowid r = next_id d"
      "notes r = or_null (js_get (JObj body) ''notes'')"
      "otherCities r = or_null (js_get (JObj body) ''otherCities'')"
      "displayName r = or_null (js_get (JObj body) ''displayName'')"
    and res: "fst (post_friends err now body d) = ok (JObj
         [(''id'', JNum (of_int (next_id d))),
          (''name'', js_get (JObj body) ''name''),
          (''location'', js_get (JObj body) ''location''),
          (''notes'', js_get (JObj body) ''notes''),
          (''otherCities'', js_get (JObj body) ''otherCities''),
          (''coords'', js_get (JObj body) ''coords''),
          (''displayName'', js_get (JObj body) ''displayName''),
          (''message'', JStr ''Friend added successfully'')])"
    by blast
  from d' have "r \<in> set (friends (snd (post_friends err now body d)))" by simp
  from listed_row [OF assms(2) this] obtain xs where
    xs: "fst (get_friends err' (snd (post_friends err now body d))) = ok (JArr xs)"
    and x: "privileged_view r \<in> set xs"
    by blast
  from d' have "friends (snd (post_friends err now body d)) = friends d @ [r]" by simp
  with res xs x r show ?thesis
    by (intro exI [of _ r] conjI exI [of _ xs] bexI [of _ "privileged_view r"])
       (simp_all add: js_get_privileged_view or_null_def ok_def)
qed

theorem falsy_optional_stored_as_null_witness:
  "\<exists>r. friends (snd (post_friends False ''2024-05-05 18:00:00''
       [(''name'', JStr ''Eli''), (''location'', JStr ''Ghent''),
        (''notes'', JStr []), (''otherCities'', JStr []), (''displayName'', JStr []),
        (''coords'', JObj [(''lat'', JNum 51.05), (''lng'', JNum 3.7)])] two_friends)) =
          friends two_friends @ [r]
     \<and> notes r = JNull \<and> otherCities r = JNull \<and> displayName r = JNull
     \<and> js_get (json (fst (post_friends False ''2024-05-05 18:00:00''
       [(''name'', JStr ''Eli''), (''location'', JStr ''Ghent''),
        (''notes'', JStr []), (''otherCities'', JStr []), (''displayName'', JStr []),
        (''coords'', JObj [(''lat'', JNum 51.05), (''lng'', JNum 3.7)])] two_friends))) ''notes'' =
         JStr []"
proof -
  have "status (fst (post_friends False ''2024-05-05 18:00:00''
       [(''name'', JStr ''Eli''), (''location'', JStr ''Ghent''),
        (''notes'', JStr []), (''otherCities'', JStr []), (''displayName'', JStr []),
        (''coords'', JObj [(''lat'', JNum 51.05), (''lng'', JNum 3.7)])] two_friends)) = 200"
    by (simp add: post_friends_def missing_required_def insert_friend_def ok_def Let_def)
  moreover have "\<not> False" by simp
  ultimately show ?thesis
    using falsy_optional_stored_as_null [where err = False and now = "''2024-05-05 18:00:00''"
       and body = "[(''name'', JStr ''Eli''), (''location'', JStr ''Ghent''),
        (''notes'', JStr []), (''otherCities'', JStr []), (''displayName'', JStr []),
        (''coords'', JObj [(''lat'', JNum 51.05), (''lng'', JNum 3.7)])]"
       and d = two_friends and err' = False]
    by simp blast
qed

section \<open>Statistics\<close>

text \<open>
  C6. When the query succeeds, the stats route answers with \<open>totalFriends\<close> the number of
  rows, \<open>friendsWithNotes\<close> the number of rows whose \<open>notes\<close> is neither \<^verbatim>\<open>NULL\<close> nor
  the empty string, and \<open>friendsWithRecommendations\<close> the same count for \<open>otherCities\<close>,
  and leaves the database as it was. After two successful creates on an empty table, one
  with truthy \<open>notes\<close> and one without (in either order), \<open>totalFriends\<close> is 2 and
  \<open>friendsWithNotes\<close> is 1.
\<close>

theorem stats_counts:
  "(\<not> err \<longrightarrow> get_stats err d =
     (ok (JObj
       [(''totalFriends'', JNum (of_nat (length (friends d)))),
        (''friendsWithNotes'',
           JNum (of_nat (length (filter (\<lambda>r. notes r \<noteq> JNull \<and> notes r \<noteq> JStr []) (friends d))))),
        (''friendsWithRecommendations'',
           JNum (of_nat (length (filter (\<lambda>r. otherCities r \<noteq> JNull \<and> otherCities r \<noteq> JStr [])
              (friends d)))))]), d))
   \<and> (\<not> err \<and> friends d = []
       \<and> status (fst (post_friends e1 t1 b1 d)) = 200
       \<and> status (fst (post_friends e2 t2 b2 (snd (post_friends e1 t1 b1 d)))) = 200
       \<and> (truthy (js_get (JObj b1) ''notes'') \<and> \<not> truthy (js_get (JObj b2) ''notes'')
            \<or> \<not> truthy (js_get (JObj b1) ''notes'') \<and> truthy (js_get (JObj b2) ''notes''))
      \<longrightarrow>
        js_get (json (fst (get_stats err
           (snd (post_friends e2 t2 b2 (snd (post_friends e1 t1 b1 d))))))) ''totalFriends'' = JNum 2
      \<and> js_get (json (fst (get_stats err
           (snd (post_friends e2 t2 b2 (snd (post_friends e1 t1 b1 d))))))) ''friendsWithNotes'' = JNum 1)"
proof (intro conjI impI)
  assume "\<not> err"
  then show "get_stats err d =
     (ok (JObj
       [(''totalFriends'', JNum (of_nat (length (friends d)))),
        (''friendsWithNotes'',
           JNum (of_nat (length (filter (\<lambda>r. notes r \<noteq> JNull \<and> notes r \<noteq> JStr []) (friends d))))),
        (''friendsWithRecommendations'',
           JNum (of_nat (length (filter (\<lambda>r. otherCities r \<noteq> JNull \<and> otherCities r \<noteq> JStr [])
              (friends d)))))]), d)"
    by (rule get_stats_ok)
next
  assume a: "\<not> err \<and> friends d = []
       \<and> status (fst (post_friends e1 t1 b1 d)) = 200
       \<and> status (fst (post_friends e2 t2 b2 (snd (post_friends e1 t1 b1 d)))) = 200
       \<and> (truthy (js_get (JObj b1) ''notes'') \<and> \<not> truthy (js_get (JObj b2) ''notes'')
            \<or> \<not> truthy (js_get (JObj b1) ''notes'') \<and> truthy (js_get (JObj b2) ''notes''))"
  then obtain r1 r2 where
    rows: "friends (snd (post_friends e2 t2 b2 (snd (post_friends e1 t1 b1 d)))) = [r1, r2]"
    and n: "notes r1 = or_null (js_get (JObj b1) ''notes'')"
      "notes r2 = or_null (js_get (JObj b2) ''notes'')"
    using two_creates [of d e1 t1 b1 e2 t2 b2] by blast
  from a have ne: "\<not> err" by simp
  from a n have cnt: "length (filter (\<lambda>r. notes r \<noteq> JNull \<and> notes r \<noteq> JStr []) [r1, r2]) = 1"
    by (auto simp: or_null_counted)
  show "js_get (json (fst (get_stats err
           (snd (post_friends e2 t2 b2 (snd (post_friends e1 t1 b1 d))))))) ''totalFriends'' = JNum 2"
    unfolding get_stats_ok [OF ne] by (simp add: rows ok_def)
  show "js_get (json (fst (get_stats err
           (snd (post_friends e2 t2 b2 (snd (post_friends e1 t1 b1 d))))))) ''friendsWithNotes'' = JNum 1"
    unfolding get_stats_ok [OF ne] using cnt by (simp add: rows ok_def)
qed

theorem stats_counts_witness:
  "js_get (json (fst (get_stats False
      (snd (post_friends False ''2024-05-07 09:00:00''
         [(''name'', JStr ''Gus''), (''location'', JStr ''Riga''),
          (''coords'', JObj [(''lat'', JNum 56.9), (''lng'', JNum 24.1)])]
      (snd (post_friends False ''2024-05-06 09:00:00''
         [(''name'', JStr ''Fay''), (''location'', JStr ''Kyiv''), (''notes'', JStr ''likes tea''),
          (''coords'', JObj [(''lat'', JNum 50.4), (''lng'', JNum 30.5)])] init_db))))))) ''totalFriends'' = JNum 2
   \<and> js_get (json (fst (get_stats False
      (snd (post_friends False ''2024-05-07 09:00:00''
         [(''name'', JStr ''Gus''), (''location'', JStr ''Riga''),
          (''coords'', JObj [(''lat'', JNum 56.9), (''lng'', JNum 24.1)])]
      (snd (post_friends False ''2024-05-06 09:00:00''
         [(''name'', JStr ''Fay''), (''location'', JStr ''Kyiv''), (''notes'', JStr ''likes tea''),
          (''coords'', JObj [(''lat'', JNum 50.4), (''lng'', JNum 30.5)])] init_db))))))) ''friendsWithNotes'' = JNum 1
   \<and> get_stats False two_friends =
       (ok (JObj [(''totalFriends'', JNum 2), (''friendsWithNotes'', JNum 1),
                  (''friendsWithRecommendations'', JNum 1)]), two_friends)"
proof -
  let ?b1 = "[(''name'', JStr ''Fay''), (''location'', JStr ''Kyiv''), (''notes'', JStr ''likes tea''),
          (''coords'', JObj [(''lat'', JNum 50.4), (''lng'', JNum 30.5)])]"
  let ?b2 = "[(''name'', JStr ''Gus''), (''location'', JStr ''Riga''),
          (''coords'', JObj [(''lat'', JNum 56.9), (''lng'', JNum 24.1)])]"
  have s1: "status (fst (post_friends False ''2024-05-06 09:00:00'' ?b1 init_db)) = 200"
    by (simp add: post_friends_def missing_required_def insert_friend_def ok_def Let_def)
  have s2: "status (fst (post_friends False ''2024-05-07 09:00:00'' ?b2
      (snd (post_friends False ''2024-05-06 09:00:00'' ?b1 init_db)))) = 200"
    by (simp add: post_friends_def missing_required_def insert_friend_def ok_def Let_def)
  have e: "friends init_db = []" by (simp add: init_db_def)
  have n: "truthy (js_get (JObj ?b1) ''notes'')" "\<not> truthy (js_get (JObj ?b2) ''notes'')"
    by simp_all
  have "get_stats False two_friends =
       (ok (JObj [(''totalFriends'', JNum 2), (''friendsWithNotes'', JNum 1),
                  (''friendsWithRecommendations'', JNum 1)]), two_friends)"
    using stats_counts [where err = False and d = two_friends]
    by (simp add: two_friends_def)
  with s1 s2 e n show ?thesis
    using stats_counts [where err = False and d = init_db and ?e1.0 = False and ?e2.0 = False
        and ?t1.0 = "''2024-05-06 09:00:00''" and ?t2.0 = "''2024-05-07 09:00:00''"
        and ?b1.0 = ?b1 and ?b2.0 = ?b2]
    by simp
qed

section \<open>Ids and rows under every request\<close>

text \<open>
  C8. Every request keeps the ids of the table distinct. A row of the table after the
  request is either a row of the table before it, unchanged, or has an id that no row had
  before; and a row of the table before the request is still there after it unless the
  request deletes that id or clears the table.
\<close>

theorem handle_keeps_ids_and_rows:
  "distinct (map rowid (friends d)) \<Longrightarrow>
   distinct (map rowid (friends (snd (handle err now req d))))
   \<and> (\<forall>r\<in>set (friends (snd (handle err now req d))).
         r \<in> set (friends d) \<or> rowid r \<notin> rowid ` set (friends d))
   \<and> (\<forall>r\<in>set (friends d).
         r \<in> set (friends (snd (handle err now req d)))
         \<or> req = DeleteFriend (rowid r) \<or> req = ClearFriends)"
proof -
  assume dist: "distinct (map rowid (friends d))"
  show ?thesis
  proof (cases req)
    case GetFriends
    with dist show ?thesis by (simp add: read_only)
  next
    case GetFriendsPublic
    with dist show ?thesis by (simp add: read_only)
  next
    case GetStats
    with dist show ?thesis by (simp add: read_only)
  next
    case (PostFriends body)
    from post_friends_rows [of err now body d] show ?thesis
    proof
      assume "snd (post_friends err now body d) = d"
      with dist PostFriends show ?thesis by simp
    next
      assume "\<exists>r. rowid r = next_id d \<and>
          friends (snd (post_friends err now body d)) = friends d @ [r]"
      then obtain r where r: "rowid r = next_id d"
        and rows: "friends (snd (post_friends err now body d)) = friends d @ [r]"
        by blast
      from r have fresh: "rowid r \<notin> rowid ` set (friends d)"
        using next_id_not_in_table [of d] by simp
      with dist have "distinct (map rowid (friends d @ [r]))" by simp
      with fresh PostFriends rows show ?thesis by auto
    qed
  next
    case (DeleteFriend friendId)
    from delete_friend_rows [of err friendId d] show ?thesis
    proof
      assume "snd (delete_friend err friendId d) = d"
      with dist DeleteFriend show ?thesis by simp
    next
      assume rows: "friends (snd (delete_friend err friendId d)) =
          filter (\<lambda>r. rowid r \<noteq> friendId) (friends d)"
      from dist have "distinct (map rowid (filter (\<lambda>r. rowid r \<noteq> friendId) (friends d)))"
        by (rule distinct_map_filter)
      with DeleteFriend rows show ?thesis by auto
    qed
  next
    case ClearFriends
    from clear_friends_rows [of err d] show ?thesis
    proof
      assume "snd (clear_friends err d) = d"
      with dist ClearFriends show ?thesis by simp
    next
      assume "friends (snd (clear_friends err d)) = []"
      with ClearFriends show ?thesis by simp
    qed
  qed
qed

theorem handle_keeps_ids_and_rows_witness:
  "distinct (map rowid (friends (snd (handle False ''2024-05-08 07:00:00''
      (PostFriends [(''name'', JStr ''Hana''), (''location'', JStr ''Brno''),
          (''coords'', JObj [(''lat'', JNum 49.2), (''lng'', JNum 16.6)])]) two_friends))))
   \<and> set (friends two_friends) \<subseteq>
        set (friends (snd (handle False ''2024-05-08 07:00:00''
      (PostFriends [(''name'', JStr ''Hana''), (''location'', JStr ''Brno''),
          (''coords'', JObj [(''lat'', JNum 49.2), (''lng'', JNum 16.6)])]) two_friends)))
   \<and> length (friends (snd (handle False ''2024-05-08 07:00:00''
      (PostFriends [(''name'', JStr ''Hana''), (''location'', JStr ''Brno''),
          (''coords'', JObj [(''lat'', JNum 49.2), (''lng'', JNum 16.6)])]) two_friends))) = 3"
proof -
  have "distinct (map rowid (friends two_friends))"
    by (simp add: two_friends_def)
  from handle_keeps_ids_and_rows [OF this, of False "''2024-05-08 07:00:00''"
      "PostFriends [(''name'', JStr ''Hana''), (''location'', JStr ''Brno''),
          (''coords'', JObj [(''lat'', JNum 49.2), (''lng'', JNum 16.6)])]"]
  have "distinct (map rowid (friends (snd (handle False ''2024-05-08 07:00:00''
      (PostFriends [(''name'', JStr ''Hana''), (''location'', JStr ''Brno''),
          (''coords'', JObj [(''lat'', JNum 49.2), (''lng'', JNum 16.6)])]) two_friends))))"
    and "set (friends two_friends) \<subseteq>
        set (friends (snd (handle False ''2024-05-08 07:00:00''
      (PostFriends [(''name'', JStr ''Hana''), (''location'', JStr ''Brno''),
          (''coords'', JObj [(''lat'', JNum 49.2), (''lng'', JNum 16.6)])]) two_friends)))"
    by auto
  moreover have "length (friends (snd (handle False ''2024-05-08 07:00:00''
      (PostFriends [(''name'', JStr ''Hana''), (''location'', JStr ''Brno''),
          (''coords'', JObj [(''lat'', JNum 49.2), (''lng'', JNum 16.6)])]) two_friends))) = 3"
    by (simp add: post_friends_def missing_required_def insert_friend_def Let_def two_friends_def)
  ultimately show ?thesis by simp
qed

end
